theory Spec2Isabelle
  imports Main "HOL-Library.Word" "HOL-Library.AList"
begin

section \<open>CodeCatalyst command layer (src/codecatalyst/commands.ts)\<close>

text \<open>
  The file binds editor commands to calls on a CodeCatalyst client. Everything it does is
  a call across its boundary: to the client, to the editor, to the wizards, to telemetry.
  The model therefore keeps a trace of the calls the file makes, in the order it makes
  them, and takes the answers of the collaborators from an environment of functions that
  act on an opaque world. An \<open>async\<close> function is a state transformer that ends in a
  rejection (\<open>Inl\<close>, the thrown value) or in a fulfilment (\<open>Inr\<close>).
\<close>

subsection \<open>Strings and objects\<close>

text \<open>
  A JavaScript string is a sequence of UTF-16 code units; \<open>slice\<close> and \<open>split\<close> count
  code units. Identifiers and literals of the source (command ids, property keys, error
  codes, messages) are kept as HOL strings.
\<close>

type_synonym code_unit = "16 word"
type_synonym jsstring = "code_unit list"

definition ustr :: "string \<Rightarrow> jsstring" where
  "ustr s = map of_char s"

text \<open>
  Object literals sent to the client are association lists from property keys to values,
  in insertion order. Numbers are only passed through by this file, never computed on.
\<close>

datatype jsval =
    JUndefined
  | JString jsstring
  | JNumber int
  | JBool bool
  | JObject "(string \<times> jsval) list"

type_synonym jsobject = "(string \<times> jsval) list"

text \<open>
  \<open>{ ...a, k1: v1, ... }\<close>: the own properties of \<open>a\<close> in their order, then each written
  key assigned in turn; assigning an existing key keeps its place and replaces its value.
\<close>

fun assign :: "jsobject \<Rightarrow> (string \<times> jsval) list \<Rightarrow> jsobject" where
  "assign obj [] = obj"
| "assign obj ((k, v) # kvs) = assign (AList.update k v obj) kvs"

subsection \<open>Data of the command layer\<close>

text \<open>\<open>client.identity\<close>, with its \<open>id\<close> and \<open>name\<close>.\<close>

record identity =
  identity_id :: jsstring
  identity_name :: jsstring

text \<open>
  \<open>CodeCatalystClient\<close> is an object: a reference, whose fields hold what they hold at
  the moment they are read. The file reads \<open>connected\<close> and \<open>identity\<close>, and reads
  \<open>identity\<close> only behind a test of \<open>connected\<close>.
\<close>

datatype client = Client nat

record client_fields =
  connected :: bool
  identity :: identity

text \<open>An object with a \<open>name\<close>: the \<open>org\<close> and \<open>project\<close> of a resource.\<close>

record named =
  name :: jsstring

text \<open>\<open>DevEnvironmentId\<close>: \<open>id\<close>, \<open>org\<close> and \<open>project\<close> of a dev environment.\<close>

record DevEnvironmentId =
  devenv_id :: jsstring
  org :: named
  project :: named

text \<open>\<open>CodeCatalystResource['type']\<close>.\<close>

datatype resource_kind = Kind_org | Kind_project | Kind_repo | Kind_devEnvironment

text \<open>
  A repository as \<open>cloneCodeCatalystRepo\<close> reads it: \<open>r.name\<close>, \<open>r.org.name\<close> and
  \<open>r.project.name\<close>.
\<close>

record CodeCatalystRepo = named +
  repo_org :: named
  repo_project :: named

text \<open>
  \<open>CodeCatalystResource\<close>, a union tagged by its kind. An organisation has a name; a
  project a name and its organisation; a repository is as above; a dev environment has
  the fields of \<open>DevEnvironmentId\<close>.
\<close>

datatype CodeCatalystResource =
    Resource_org named
  | Resource_project jsstring named
  | Resource_repo CodeCatalystRepo
  | Resource_devEnvironment DevEnvironmentId

text \<open>\<open>vscode.Uri\<close>; the file reads \<open>path\<close> only.\<close>

record Uri =
  scheme :: jsstring
  authority :: jsstring
  path :: jsstring
  query :: jsstring
  fragment :: jsstring

text \<open>The values thrown in this file, and any other value a collaborator may throw.\<close>

datatype error =
    ToolkitError string string
  | CancellationError string
  | Error string
  | Thrown jsval

text \<open>The optional \<open>opts\<close> of \<open>stopDevEnv\<close>: \<open>{ showPrompt?: boolean }\<close>.\<close>

record StopOpts =
  showPrompt :: "bool option"

subsection \<open>Calls across the boundary\<close>

text \<open>
  One constructor for each call the file makes, with the arguments it passes.
  \<open>CommandCall\<close> marks the injector calling the command it wraps, with the client it
  supplies.
\<close>

datatype event =
    ClientFactoryCall
  | CommandCall client
  | TelemetryRecord jsstring
  | TelemetryConnect string
  | TelemetryUpdateWorkspaceSettings string
  | SelectCodeCatalystResource client resource_kind
  | GetPat client
  | GetRepoCloneUrl client jsobject jsstring jsstring
  | ExecuteCommand string "jsstring list"
  | OpenCodeCatalystUrl CodeCatalystResource
  | ShowConfirmationMessage string string
  | ShowTextDocument Uri
  | StopDevEnvironment client jsobject
  | DeleteDevEnvironment client jsobject
  | UpdateDevEnvironment client jsobject
  | ShowCreateDevEnv client
  | ShowConfigureDevEnv client DevEnvironmentId
  | OpenDevEnv client DevEnvironmentId "jsstring option"
  | GetConnectedDevEnv client
  | AuthFromContextCall
  | CreateClientFactoryCall

record 'w host =
  world :: 'w
  trace :: "event list"

type_synonym ('w, 'a) extern = "'w \<Rightarrow> (error + 'a) \<times> 'w"
type_synonym ('w, 'a) async = "'w host \<Rightarrow> (error + 'a) \<times> 'w host"

definition resolve :: "'a \<Rightarrow> ('w, 'a) async" where
  "resolve a = (\<lambda>s. (Inr a, s))"

definition reject :: "error \<Rightarrow> ('w, 'a) async" where
  "reject e = (\<lambda>s. (Inl e, s))"

text \<open>\<open>const x = await m; f x\<close>: a rejection of \<open>m\<close> ends the function.\<close>

definition await :: "('w, 'a) async \<Rightarrow> ('a \<Rightarrow> ('w, 'b) async) \<Rightarrow> ('w, 'b) async" where
  "await m f = (\<lambda>s. case m s of (Inl e, s') \<Rightarrow> (Inl e, s') | (Inr a, s') \<Rightarrow> f a s')"

text \<open>
  \<open>try { m } finally { fin }\<close>: \<open>fin\<close> runs however \<open>m\<close> ends; the outcome is that of
  \<open>m\<close>, unless \<open>fin\<close> itself throws.
\<close>

definition try_finally :: "('w, 'a) async \<Rightarrow> ('w, unit) async \<Rightarrow> ('w, 'a) async" where
  "try_finally m fin =
     (\<lambda>s. case m s of (r, s') \<Rightarrow>
        (case fin s' of (Inl e, s'') \<Rightarrow> (Inl e, s'') | (Inr _, s'') \<Rightarrow> (r, s'')))"

text \<open>Reading a field of an object: a look at the world as it is now, not a call.\<close>

definition reading :: "('w \<Rightarrow> 'a) \<Rightarrow> ('a \<Rightarrow> ('w, 'b) async) \<Rightarrow> ('w, 'b) async" where
  "reading g f = (\<lambda>s. f (g (world s)) s)"

text \<open>The calls a run adds to the trace.\<close>

definition new_calls :: "('w, 'a) async \<Rightarrow> 'w host \<Rightarrow> event list" where
  "new_calls m s = drop (length (trace s)) (trace (snd (m s)))"

text \<open>The records of the user identifier among the calls.\<close>

fun is_TelemetryRecord :: "event \<Rightarrow> bool" where
  "is_TelemetryRecord (TelemetryRecord u) = True"
| "is_TelemetryRecord _ = False"

text \<open>A call that is recorded and always returns: the telemetry recorders.\<close>

definition emit :: "event \<Rightarrow> ('w, unit) async" where
  "emit ev = (\<lambda>s. (Inr (), s\<lparr>trace := trace s @ [ev]\<rparr>))"

text \<open>An awaited call to a collaborator: recorded, then answered by the collaborator.\<close>

definition call :: "event \<Rightarrow> ('w, 'a) extern \<Rightarrow> ('w, 'a) async" where
  "call ev f =
     (\<lambda>s. case f (world s) of (r, w') \<Rightarrow> (r, \<lparr>world = w', trace = trace s @ [ev]\<rparr>))"

text \<open>
  A call to \<open>vscode.commands.executeCommand\<close> whose Thenable is dropped (no \<open>await\<close>,
  no \<open>return\<close>): the command is started, and the caller goes on whatever becomes of it.
\<close>

definition detached :: "event \<Rightarrow> ('w, 'a) extern \<Rightarrow> ('w, unit) async" where
  "detached ev f = (\<lambda>s. case call ev f s of (_, s') \<Rightarrow> (Inr (), s'))"

subsection \<open>The collaborators\<close>

text \<open>
  None of these is defined in the file: the client's operations, the wizards, the editor,
  the model's helpers, and two constants (\<open>vscode.env.remoteName\<close>, undefined when the
  editor is local, and \<open>AccountStatus.NotApplicable\<close>). The generic
  \<open>selectCodeCatalystResource\<close> returns the resource type of the kind it is asked for,
  or undefined; it appears once for each result type the file uses it at. \<open>fields_of\<close>
  gives the fields of a client object as they are in a world. For
  \<open>openCodeCatalystUrl\<close>, which the file calls and does not await, \<open>Inl\<close> is a throw
  of the call itself.
\<close>

record 'w env =
  remoteName :: "jsstring option"
  AccountStatus_NotApplicable :: jsstring
  fields_of :: "client \<Rightarrow> 'w \<Rightarrow> client_fields"
  selectCodeCatalystResource :: "client \<Rightarrow> resource_kind \<Rightarrow> ('w, CodeCatalystResource option) extern"
  selectCodeCatalystResource_repo :: "client \<Rightarrow> ('w, CodeCatalystRepo option) extern"
  selectCodeCatalystResource_devEnvironment :: "client \<Rightarrow> ('w, DevEnvironmentId option) extern"
  getPat :: "client \<Rightarrow> ('w, jsstring) extern"
  getRepoCloneUrl :: "client \<Rightarrow> jsobject \<Rightarrow> jsstring \<Rightarrow> jsstring \<Rightarrow> ('w, jsstring) extern"
  executeCommand :: "string \<Rightarrow> jsstring list \<Rightarrow> ('w, unit) extern"
  openCodeCatalystUrl :: "CodeCatalystResource \<Rightarrow> ('w, unit) extern"
  showConfirmationMessage :: "string \<Rightarrow> string \<Rightarrow> ('w, bool) extern"
  showTextDocument :: "Uri \<Rightarrow> ('w, unit) extern"
  stopDevEnvironment :: "client \<Rightarrow> jsobject \<Rightarrow> ('w, unit) extern"
  deleteDevEnvironment :: "client \<Rightarrow> jsobject \<Rightarrow> ('w, unit) extern"
  updateDevEnvironment :: "client \<Rightarrow> jsobject \<Rightarrow> ('w, jsval) extern"
  showCreateDevEnv :: "client \<Rightarrow> ('w, unit) extern"
  showConfigureDevEnv :: "client \<Rightarrow> DevEnvironmentId \<Rightarrow> ('w, unit) extern"
  model_openDevEnv :: "client \<Rightarrow> DevEnvironmentId \<Rightarrow> jsstring option \<Rightarrow> ('w, unit) extern"
  getConnectedDevEnv :: "client \<Rightarrow> ('w, DevEnvironmentId option) extern"

subsection \<open>The client injector\<close>

text \<open>
  \<open>createClientInjector\<close> returns the injector; nothing runs until the injector is
  called with a command and its arguments. \<open>authProvider\<close> is not used by it. The
  factory is awaited outside the \<open>try\<close>. \<open>client.connected\<close> is read twice: in the
  \<open>try\<close>, before the command, and again in the \<open>finally\<close>, after it.
\<close>

definition createClientInjector ::
  "'w env \<Rightarrow> 'p \<Rightarrow> ('w, client) extern \<Rightarrow>
     (client \<Rightarrow> 'a \<Rightarrow> ('w, 'u) async) \<Rightarrow> 'a \<Rightarrow> ('w, 'u) async" where
  "createClientInjector env authProvider clientFactory =
     (\<lambda>command args.
        await (call ClientFactoryCall clientFactory) (\<lambda>client.
          try_finally
            (reading (fields_of env client) (\<lambda>now.
               if \<not> connected now
               then reject (ToolkitError ''Not connected to CodeCatalyst'' ''NoConnection'')
               else await (emit (CommandCall client)) (\<lambda>_. command client args)))
            (reading (fields_of env client) (\<lambda>now.
               let userId = (if connected now
                             then ustr ''codecatalyst;'' @ identity_id (identity now)
                             else AccountStatus_NotApplicable env)
               in emit (TelemetryRecord userId)))))"

subsection \<open>The commands\<close>

text \<open>\<open>listCommands\<close>: the editor command is started and not awaited.\<close>

definition listCommands :: "'w env \<Rightarrow> ('w, unit) async" where
  "listCommands env =
     detached (ExecuteCommand ''workbench.action.quickOpen'' [ustr ''> CodeCatalyst''])
       (executeCommand env ''workbench.action.quickOpen'' [ustr ''> CodeCatalyst''])"

text \<open>
  \<open>s.split(sep)\<close> for a separator of one code unit: the pieces between the separators,
  empty pieces included; a string without separator is its own single piece.
\<close>

fun split_from :: "code_unit \<Rightarrow> jsstring \<Rightarrow> jsstring \<Rightarrow> jsstring list" where
  "split_from sep cur [] = [cur]"
| "split_from sep cur (c # cs) =
     (if c = sep then cur # split_from sep [] cs else split_from sep (cur @ [c]) cs)"

definition js_split :: "code_unit \<Rightarrow> jsstring \<Rightarrow> jsstring list" where
  "js_split sep s = split_from sep [] s"

text \<open>\<open>pieces.join(sep)\<close>, the inverse of \<open>split\<close>; used to state what \<open>js_split\<close> computes.\<close>

fun js_join :: "code_unit \<Rightarrow> jsstring list \<Rightarrow> jsstring" where
  "js_join sep [] = []"
| "js_join sep [x] = x"
| "js_join sep (x # y # ys) = x @ sep # js_join sep (y # ys)"

text \<open>\<open>s.slice(1)\<close>: the string without its first code unit.\<close>

definition js_slice1 :: "jsstring \<Rightarrow> jsstring" where
  "js_slice1 s = drop 1 s"

text \<open>Array destructuring: the element at an index, undefined beyond the end.\<close>

definition element :: "'a list \<Rightarrow> nat \<Rightarrow> 'a option" where
  "element xs i = (if i < length xs then Some (xs ! i) else None)"

text \<open>\<open>!x\<close> for a string or undefined: true on undefined and on the empty string.\<close>

definition falsy :: "jsstring option \<Rightarrow> bool" where
  "falsy x = (case x of None \<Rightarrow> True | Some v \<Rightarrow> v = [])"

definition slash :: code_unit where
  "slash = 0x2F"

text \<open>
  \<open>cloneCodeCatalystRepo\<close>. The local \<open>resource\<close> is the triple (name, project, org).
  The arguments of \<open>getRepoCloneUrl\<close> are evaluated in order: \<open>client.identity.name\<close>
  is read, then \<open>getPat\<close> is awaited, then \<open>getRepoCloneUrl\<close> is called.
\<close>

definition cloneCodeCatalystRepo :: "'w env \<Rightarrow> client \<Rightarrow> Uri option \<Rightarrow> ('w, unit) async" where
  "cloneCodeCatalystRepo env client url =
     await
       (case url of
          None \<Rightarrow>
            await (call (SelectCodeCatalystResource client Kind_repo)
                     (selectCodeCatalystResource_repo env client)) (\<lambda>r.
              case r of
                None \<Rightarrow> reject (CancellationError ''user'')
              | Some r \<Rightarrow> resolve (name r, name (repo_project r), name (repo_org r)))
        | Some u \<Rightarrow>
            (let parts = js_split slash (js_slice1 (path u));
                 org = element parts 1; project = element parts 2; repo = element parts 3
             in if falsy org \<or> falsy project \<or> falsy repo
                then reject (Error ''Invalid CodeCatalyst URL: unable to parse repository'')
                else resolve (the repo, the project, the org)))
       (\<lambda>(resource_name, resource_project, resource_org).
          let request = [(''spaceName'', JString resource_org),
                         (''projectName'', JString resource_project),
                         (''sourceRepositoryName'', JString resource_name)]
          in reading (fields_of env client) (\<lambda>now.
               let user = identity_name (identity now)
               in await (call (GetPat client) (getPat env client)) (\<lambda>pat.
                    await (call (GetRepoCloneUrl client request user pat)
                             (getRepoCloneUrl env client request user pat))
                      (\<lambda>uri. call (ExecuteCommand ''git.clone'' [uri])
                                (executeCommand env ''git.clone'' [uri])))))"

text \<open>
  \<open>openCodeCatalystResource\<close>. \<open>openCodeCatalystUrl(resource)\<close> is a plain call: if
  it throws, the function rejects with what it threw; what it returns is dropped.
\<close>

definition openCodeCatalystResource ::
  "'w env \<Rightarrow> client \<Rightarrow> resource_kind \<Rightarrow> ('w, unit) async" where
  "openCodeCatalystResource env client kind =
     await (call (SelectCodeCatalystResource client kind)
              (selectCodeCatalystResource env client kind)) (\<lambda>resource.
       case resource of
         None \<Rightarrow> reject (CancellationError ''user'')
       | Some r \<Rightarrow>
           await (call (OpenCodeCatalystUrl r) (openCodeCatalystUrl env r)) (\<lambda>_. resolve ()))"

text \<open>\<open>opts?.showPrompt\<close> as a condition: true only for an \<open>opts\<close> whose \<open>showPrompt\<close> is true.\<close>

definition opts_showPrompt :: "StopOpts option \<Rightarrow> bool" where
  "opts_showPrompt opts =
     (case opts of None \<Rightarrow> False | Some ops \<Rightarrow> (case showPrompt ops of None \<Rightarrow> False | Some b \<Rightarrow> b))"

text \<open>The request object built from a dev environment: \<open>id\<close>, \<open>projectName\<close>, \<open>spaceName\<close>.\<close>

definition devenv_request :: "DevEnvironmentId \<Rightarrow> jsobject" where
  "devenv_request devenv =
     [(''id'', JString (devenv_id devenv)),
      (''projectName'', JString (name (project devenv))),
      (''spaceName'', JString (name (org devenv)))]"

definition stopDevEnv ::
  "'w env \<Rightarrow> client \<Rightarrow> DevEnvironmentId \<Rightarrow> StopOpts option \<Rightarrow> ('w, unit) async" where
  "stopDevEnv env client devenv opts =
     await
       (if opts_showPrompt opts
        then await (call (ShowConfirmationMessage ''aws.codecatalyst.stopDevEnv.confirm''
                            ''Stopping the dev environment will end all processes. Continue?'')
                      (showConfirmationMessage env ''aws.codecatalyst.stopDevEnv.confirm''
                            ''Stopping the dev environment will end all processes. Continue?''))
               (\<lambda>confirmed. if \<not> confirmed then reject (CancellationError ''user'')
                            else resolve ())
        else resolve ())
       (\<lambda>_. call (StopDevEnvironment client (devenv_request devenv))
               (stopDevEnvironment env client (devenv_request devenv)))"

definition deleteDevEnv :: "'w env \<Rightarrow> client \<Rightarrow> DevEnvironmentId \<Rightarrow> ('w, unit) async" where
  "deleteDevEnv env client devenv =
     call (DeleteDevEnvironment client (devenv_request devenv))
       (deleteDevEnvironment env client (devenv_request devenv))"

text \<open>
  \<open>updateDevEnv\<close>: the request is \<open>{ ...settings, id, projectName, spaceName }\<close>, and
  the promise of the client is returned as it is.
\<close>

definition update_request :: "DevEnvironmentId \<Rightarrow> jsobject \<Rightarrow> jsobject" where
  "update_request devenv settings = assign settings (devenv_request devenv)"

definition updateDevEnv ::
  "'w env \<Rightarrow> client \<Rightarrow> DevEnvironmentId \<Rightarrow> jsobject \<Rightarrow> ('w, jsval) async" where
  "updateDevEnv env client devenv settings =
     call (UpdateDevEnvironment client (update_request devenv settings))
       (updateDevEnvironment env client (update_request devenv settings))"

subsection \<open>The class \<open>CodeCatalystCommands\<close>\<close>

text \<open>
  An instance is made of what its constructor is given. Its \<open>withClient\<close> is the injector
  created from them.
\<close>

record ('p, 'w) CodeCatalystCommands =
  authProvider :: 'p
  clientFactory :: "('w, client) extern"

definition withClient ::
  "'w env \<Rightarrow> ('p, 'w) CodeCatalystCommands \<Rightarrow>
     (client \<Rightarrow> 'a \<Rightarrow> ('w, 'u) async) \<Rightarrow> 'a \<Rightarrow> ('w, 'u) async" where
  "withClient env this = createClientInjector env (authProvider this) (clientFactory this)"

text \<open>
  The constructor: \<open>clientFactory = createClientFactory(authProvider)\<close> when none is
  given. \<open>createClientFactory\<close>, of the model, is not in the file; it is a parameter
  here, a call that returns the factory.
\<close>

definition Commands_new ::
  "('p \<Rightarrow> ('w, ('w, client) extern) extern) \<Rightarrow> 'p \<Rightarrow> ('w, client) extern option \<Rightarrow>
     ('w, ('p, 'w) CodeCatalystCommands) async" where
  "Commands_new createClientFactory auth factory =
     await (case factory of
              Some f \<Rightarrow> resolve f
            | None \<Rightarrow> call CreateClientFactoryCall (createClientFactory auth))
       (\<lambda>f. resolve \<lparr>authProvider = auth, clientFactory = f\<rparr>)"

text \<open>
  \<open>fromContext\<close>: the provider is taken from the context
  (\<open>CodeCatalystAuthenticationProvider.fromContext\<close>, a parameter here), the factory is
  created from it, and both are given to the constructor.
\<close>

definition Commands_fromContext ::
  "('x \<Rightarrow> ('w, 'p) extern) \<Rightarrow> ('p \<Rightarrow> ('w, ('w, client) extern) extern) \<Rightarrow> 'x \<Rightarrow>
     ('w, ('p, 'w) CodeCatalystCommands) async" where
  "Commands_fromContext authFromContext createClientFactory ctx =
     await (call AuthFromContextCall (authFromContext ctx)) (\<lambda>auth.
       await (call CreateClientFactoryCall (createClientFactory auth)) (\<lambda>factory.
         Commands_new createClientFactory auth (Some factory)))"

text \<open>\<open>bindClient\<close>, made by \<open>createCommandDecorator\<close>: a command bound to \<open>withClient\<close>.\<close>

definition bindClient ::
  "'w env \<Rightarrow> ('p, 'w) CodeCatalystCommands \<Rightarrow>
     (client \<Rightarrow> 'a \<Rightarrow> ('w, 'u) async) \<Rightarrow> 'a \<Rightarrow> ('w, 'u) async" where
  "bindClient env this = (\<lambda>command args. withClient env this command args)"

definition Commands_listCommands :: "'w env \<Rightarrow> ('p, 'w) CodeCatalystCommands \<Rightarrow> ('w, unit) async" where
  "Commands_listCommands env this = listCommands env"

definition Commands_cloneRepository ::
  "'w env \<Rightarrow> ('p, 'w) CodeCatalystCommands \<Rightarrow> Uri option \<Rightarrow> ('w, unit) async" where
  "Commands_cloneRepository env this url = withClient env this (cloneCodeCatalystRepo env) url"

definition Commands_createDevEnv :: "'w env \<Rightarrow> ('p, 'w) CodeCatalystCommands \<Rightarrow> ('w, unit) async" where
  "Commands_createDevEnv env this =
     withClient env this (\<lambda>client _. call (ShowCreateDevEnv client) (showCreateDevEnv env client)) ()"

definition Commands_openResource ::
  "'w env \<Rightarrow> ('p, 'w) CodeCatalystCommands \<Rightarrow> resource_kind \<Rightarrow> ('w, unit) async" where
  "Commands_openResource env this kind = withClient env this (openCodeCatalystResource env) kind"

text \<open>
  \<open>stopDevEnv\<close> of the class: \<open>withClient(stopDevEnv, ...args).then(() => { ... })\<close>. The
  callback runs when the promise is fulfilled; it starts the editor command and does not
  await it.
\<close>

definition Commands_stopDevEnv ::
  "'w env \<Rightarrow> ('p, 'w) CodeCatalystCommands \<Rightarrow> DevEnvironmentId \<Rightarrow> StopOpts option \<Rightarrow> ('w, unit) async" where
  "Commands_stopDevEnv env this devenv opts =
     await (withClient env this (\<lambda>client (d, ops). stopDevEnv env client d ops) (devenv, opts))
       (\<lambda>_. detached (ExecuteCommand ''workbench.action.remote.close'' [])
               (executeCommand env ''workbench.action.remote.close'' []))"

definition Commands_deleteDevEnv ::
  "'w env \<Rightarrow> ('p, 'w) CodeCatalystCommands \<Rightarrow> DevEnvironmentId \<Rightarrow> ('w, unit) async" where
  "Commands_deleteDevEnv env this devenv = withClient env this (deleteDevEnv env) devenv"

definition Commands_updateDevEnv ::
  "'w env \<Rightarrow> ('p, 'w) CodeCatalystCommands \<Rightarrow> DevEnvironmentId \<Rightarrow> jsobject \<Rightarrow> ('w, jsval) async" where
  "Commands_updateDevEnv env this devenv settings =
     await (emit (TelemetryUpdateWorkspaceSettings ''remote''))
       (\<lambda>_. withClient env this (\<lambda>client (d, st). updateDevEnv env client d st) (devenv, settings))"

definition Commands_openSpace :: "'w env \<Rightarrow> ('p, 'w) CodeCatalystCommands \<Rightarrow> ('w, unit) async" where
  "Commands_openSpace env this = Commands_openResource env this Kind_org"

definition Commands_openProject :: "'w env \<Rightarrow> ('p, 'w) CodeCatalystCommands \<Rightarrow> ('w, unit) async" where
  "Commands_openProject env this = Commands_openResource env this Kind_project"

definition Commands_openRepository :: "'w env \<Rightarrow> ('p, 'w) CodeCatalystCommands \<Rightarrow> ('w, unit) async" where
  "Commands_openRepository env this = Commands_openResource env this Kind_repo"

definition Commands_openDevfile ::
  "'w env \<Rightarrow> ('p, 'w) CodeCatalystCommands \<Rightarrow> Uri \<Rightarrow> ('w, unit) async" where
  "Commands_openDevfile env this uri = call (ShowTextDocument uri) (showTextDocument env uri)"

definition Commands_selectDevEnv ::
  "'w env \<Rightarrow> ('p, 'w) CodeCatalystCommands \<Rightarrow> ('w, DevEnvironmentId) async" where
  "Commands_selectDevEnv env this =
     await (withClient env this
              (\<lambda>client kind. call (SelectCodeCatalystResource client kind)
                               (selectCodeCatalystResource_devEnvironment env client))
              Kind_devEnvironment) (\<lambda>devenv.
       case devenv of
         None \<Rightarrow> reject (CancellationError ''user'')
       | Some d \<Rightarrow> resolve d)"

text \<open>
  \<open>openDevEnv\<close> of the class. \<open>id ?? (await this.selectDevEnv())\<close> selects only when no
  id is given.
\<close>

definition Commands_openDevEnv ::
  "'w env \<Rightarrow> ('p, 'w) CodeCatalystCommands \<Rightarrow> DevEnvironmentId option \<Rightarrow> jsstring option \<Rightarrow>
     ('w, unit) async" where
  "Commands_openDevEnv env this ident targetPath =
     (if remoteName env = Some (ustr ''ssh-remote'')
      then reject (ToolkitError
             ''Cannot connect from a remote context. Try again from a local VS Code instance.''
             ''ConnectedToRemote'')
      else
        await (case ident of Some d \<Rightarrow> resolve d | None \<Rightarrow> Commands_selectDevEnv env this)
          (\<lambda>devenv.
             await (if ident = None then emit (TelemetryConnect ''CommandPalette'') else resolve ())
               (\<lambda>_. withClient env this
                       (\<lambda>client (d, t). call (OpenDevEnv client d t) (model_openDevEnv env client d t))
                       (devenv, targetPath))))"

definition Commands_openDevEnvSettings ::
  "'w env \<Rightarrow> ('p, 'w) CodeCatalystCommands \<Rightarrow> ('w, unit) async" where
  "Commands_openDevEnvSettings env this =
     await (withClient env this
              (\<lambda>client _. call (GetConnectedDevEnv client) (getConnectedDevEnv env client)) ())
       (\<lambda>devenv.
          case devenv of
            None \<Rightarrow> reject (Error ''No devenv available'')
          | Some d \<Rightarrow>
              withClient env this
                (\<lambda>client dv. call (ShowConfigureDevEnv client dv) (showConfigureDevEnv env client dv)) d)"

subsection \<open>A small host to run the commands on\<close>

text \<open>
  The world counts the calls answered. The wizards select nothing, the user declines
  confirmations, and every other call succeeds. Of the three clients, \<open>alice\<close> is
  connected, \<open>nobody\<close> is not, and \<open>flaky\<close> is connected until two calls have been
  answered.
\<close>

definition alice :: client where
  "alice = Client 1"

definition nobody :: client where
  "nobody = Client 0"

definition flaky :: client where
  "flaky = Client 2"

definition devenv1 :: DevEnvironmentId where
  "devenv1 = \<lparr>devenv_id = ustr ''de-1'', org = \<lparr>name = ustr ''acme''\<rparr>,
               project = \<lparr>name = ustr ''web''\<rparr>\<rparr>"

definition quiet_env :: "nat env" where
  "quiet_env =
     \<lparr>remoteName = None,
      AccountStatus_NotApplicable = ustr ''n/a'',
      fields_of = (\<lambda>c w. case c of Client n \<Rightarrow>
         \<lparr>connected = (n = 1 \<or> (n = 2 \<and> w < 2)),
          identity = \<lparr>identity_id = ustr ''u-1'', identity_name = ustr ''alice''\<rparr>\<rparr>),
      selectCodeCatalystResource = (\<lambda>c k w. (Inr None, Suc w)),
      selectCodeCatalystResource_repo = (\<lambda>c w. (Inr None, Suc w)),
      selectCodeCatalystResource_devEnvironment = (\<lambda>c w. (Inr None, Suc w)),
      getPat = (\<lambda>c w. (Inr (ustr ''pat''), Suc w)),
      getRepoCloneUrl = (\<lambda>c r u p w. (Inr (ustr ''https://clone''), Suc w)),
      executeCommand = (\<lambda>i a w. (Inr (), Suc w)),
      openCodeCatalystUrl = (\<lambda>r w. (Inr (), Suc w)),
      showConfirmationMessage = (\<lambda>k m w. (Inr False, Suc w)),
      showTextDocument = (\<lambda>u w. (Inr (), Suc w)),
      stopDevEnvironment = (\<lambda>c r w. (Inr (), Suc w)),
      deleteDevEnvironment = (\<lambda>c r w. (Inr (), Suc w)),
      updateDevEnvironment = (\<lambda>c r w. (Inr (JObject r), Suc w)),
      showCreateDevEnv = (\<lambda>c w. (Inr (), Suc w)),
      showConfigureDevEnv = (\<lambda>c d w. (Inr (), Suc w)),
      model_openDevEnv = (\<lambda>c d t w. (Inr (), Suc w)),
      getConnectedDevEnv = (\<lambda>c w. (Inr None, Suc w))\<rparr>"

text \<open>A factory that returns a given client, and one that rejects.\<close>

definition serves :: "client \<Rightarrow> (nat, client) extern" where
  "serves c w = (Inr c, Suc w)"

definition fails :: "(nat, client) extern" where
  "fails w = (Inl (Error ''no session''), Suc w)"

definition start :: "nat host" where
  "start = \<lparr>world = 0, trace = []\<rparr>"

section \<open>Properties\<close>

subsection \<open>Splitting a path\<close>

lemma split_from_nonempty: "split_from sep cur s \<noteq> []"
  by (induction s arbitrary: cur) simp_all

lemma split_from_join: "js_join sep (split_from sep cur s) = cur @ s"
proof (induction s arbitrary: cur)
  case Nil
  then show ?case by simp
next
  case (Cons c cs)
  show ?case
  proof (cases "c = sep")
    case True
    obtain p ps where "split_from sep [] cs = p # ps"
      using split_from_nonempty [of sep "[]" cs] by (cases "split_from sep [] cs") auto
    with True Cons [of "[]"] show ?thesis by simp
  next
    case False
    with Cons [of "cur @ [c]"] show ?thesis by simp
  qed
qed

lemma split_from_pieces:
  "sep \<notin> set cur \<Longrightarrow> p \<in> set (split_from sep cur s) \<Longrightarrow> sep \<notin> set p"
proof (induction s arbitrary: cur)
  case Nil
  then show ?case by simp
next
  case (Cons c cs)
  show ?case
  proof (cases "c = sep")
    case True
    with Cons.prems have "p = cur \<or> p \<in> set (split_from sep [] cs)" by simp
    then show ?thesis
    proof
      assume "p = cur"
      with Cons.prems show ?thesis by simp
    next
      assume "p \<in> set (split_from sep [] cs)"
      with Cons.IH [of "[]"] show ?thesis by simp
    qed
  next
    case False
    with Cons.prems have "p \<in> set (split_from sep (cur @ [c]) cs)" by simp
    moreover from False Cons.prems have "sep \<notin> set (cur @ [c])" by auto
    ultimately show ?thesis using Cons.IH [of "cur @ [c]"] by blast
  qed
qed

lemma js_split_join: "js_join sep (js_split sep s) = s"
  by (simp add: js_split_def split_from_join)

lemma js_split_pieces: "p \<in> set (js_split sep s) \<Longrightarrow> sep \<notin> set p"
  using split_from_pieces [of sep "[]" p s] by (simp add: js_split_def)

lemma falsy_element: "falsy (element xs i) = (length xs \<le> i \<or> xs ! i = [])"
  by (auto simp: falsy_def element_def)

subsection \<open>Requests\<close>

lemma update_request_lookup:
  "map_of (update_request d settings) =
     (map_of settings)(''id'' \<mapsto> JString (devenv_id d),
        ''projectName'' \<mapsto> JString (name (project d)),
        ''spaceName'' \<mapsto> JString (name (org d)))"
  by (simp add: update_request_def devenv_request_def update_conv')

lemma deleteDevEnv_run:
  "deleteDevEnv env c d s =
     (case deleteDevEnvironment env c (devenv_request d) (world s) of
        (r, w') \<Rightarrow> (r, \<lparr>world = w', trace = trace s @ [DeleteDevEnvironment c (devenv_request d)]\<rparr>))"
  by (simp add: deleteDevEnv_def call_def)

lemma updateDevEnv_run:
  "updateDevEnv env c d settings s =
     (case updateDevEnvironment env c (update_request d settings) (world s) of
        (r, w') \<Rightarrow> (r, \<lparr>world = w',
           trace = trace s @ [UpdateDevEnvironment c (update_request d settings)]\<rparr>))"
  by (simp add: updateDevEnv_def call_def)

subsection \<open>Stopping a dev environment\<close>

lemma opts_showPrompt_iff:
  "opts_showPrompt opts = (\<exists>ops. opts = Some ops \<and> showPrompt ops = Some True)"
  by (auto simp: opts_showPrompt_def split: option.splits)

lemma stopDevEnv_no_prompt:
  "\<not> opts_showPrompt opts \<Longrightarrow>
   stopDevEnv env c d opts s =
     (case stopDevEnvironment env c (devenv_request d) (world s) of
        (r, w') \<Rightarrow> (r, \<lparr>world = w', trace = trace s @ [StopDevEnvironment c (devenv_request d)]\<rparr>))"
  by (simp add: stopDevEnv_def await_def resolve_def call_def)

lemma stopDevEnv_prompt:
  "opts_showPrompt opts \<Longrightarrow>
   \<exists>rest. trace (snd (stopDevEnv env c d opts s)) =
     trace s @ ShowConfirmationMessage ''aws.codecatalyst.stopDevEnv.confirm''
        ''Stopping the dev environment will end all processes. Continue?'' # rest"
  by (simp add: stopDevEnv_def await_def resolve_def reject_def call_def
        split: prod.splits sum.splits)

lemma stop_extends:
  "\<exists>evs. trace (snd (stopDevEnv env c d opts s)) = trace s @ evs \<and> ExecuteCommand i a \<notin> set evs"
  by (simp add: stopDevEnv_def await_def resolve_def reject_def call_def
        split: prod.splits sum.splits)

subsection \<open>The injector, step by step\<close>

lemma injector_factory_rejects:
  "factory (world s) = (Inl e, w1) \<Longrightarrow>
   createClientInjector env ap factory command args s =
     (Inl e, \<lparr>world = w1, trace = trace s @ [ClientFactoryCall]\<rparr>)"
  by (simp add: createClientInjector_def await_def call_def)

lemma injector_disconnected:
  "factory (world s) = (Inr c, w1) \<Longrightarrow> \<not> connected (fields_of env c w1) \<Longrightarrow>
   createClientInjector env ap factory command args s =
     (Inl (ToolkitError ''Not connected to CodeCatalyst'' ''NoConnection''),
      \<lparr>world = w1,
       trace = trace s @ [ClientFactoryCall, TelemetryRecord (AccountStatus_NotApplicable env)]\<rparr>)"
  by (simp add: createClientInjector_def await_def call_def try_finally_def reject_def emit_def
        reading_def)

lemma injector_connected:
  "factory (world s) = (Inr c, w1) \<Longrightarrow> connected (fields_of env c w1) \<Longrightarrow>
   createClientInjector env ap factory command args s =
     (case command c args \<lparr>world = w1, trace = trace s @ [ClientFactoryCall, CommandCall c]\<rparr> of
        (r, s') \<Rightarrow>
          (r, s'\<lparr>trace := trace s' @
                  [TelemetryRecord
                     (if connected (fields_of env c (world s'))
                      then ustr ''codecatalyst;'' @ identity_id (identity (fields_of env c (world s')))
                      else AccountStatus_NotApplicable env)]\<rparr>))"
  by (simp add: createClientInjector_def await_def call_def try_finally_def emit_def reading_def
        split: prod.splits sum.splits)

subsection \<open>Where the factory is not called\<close>

lemma no_factory_listCommands: "ClientFactoryCall \<notin> set (new_calls (listCommands env) s)"
  by (simp add: new_calls_def listCommands_def detached_def call_def split: prod.splits)

lemma no_factory_clone: "ClientFactoryCall \<notin> set (new_calls (cloneCodeCatalystRepo env c url) s)"
  by (simp add: new_calls_def cloneCodeCatalystRepo_def Let_def await_def call_def reject_def
        resolve_def reading_def split: option.splits prod.splits sum.splits)

lemma no_factory_openResource:
  "ClientFactoryCall \<notin> set (new_calls (openCodeCatalystResource env c kind) s)"
  by (simp add: new_calls_def openCodeCatalystResource_def await_def call_def reject_def
        resolve_def split: option.splits prod.splits sum.splits)

lemma no_factory_stop: "ClientFactoryCall \<notin> set (new_calls (stopDevEnv env c d opts) s)"
  by (simp add: new_calls_def stopDevEnv_def await_def call_def reject_def resolve_def
        split: prod.splits sum.splits)

lemma no_factory_delete: "ClientFactoryCall \<notin> set (new_calls (deleteDevEnv env c d) s)"
  by (simp add: new_calls_def deleteDevEnv_def call_def split: prod.splits)

lemma no_factory_update: "ClientFactoryCall \<notin> set (new_calls (updateDevEnv env c d settings) s)"
  by (simp add: new_calls_def updateDevEnv_def call_def split: prod.splits)

lemma no_factory_openDevfile:
  "ClientFactoryCall \<notin> set (new_calls (Commands_openDevfile env this uri) s)"
  by (simp add: new_calls_def Commands_openDevfile_def call_def split: prod.splits)

lemma no_factory_new:
  "ClientFactoryCall \<notin> set (new_calls (Commands_new createClientFactory auth factory) s)"
  by (simp add: new_calls_def Commands_new_def await_def call_def resolve_def
        split: option.splits prod.splits sum.splits)

lemma no_factory_fromContext:
  "ClientFactoryCall \<notin>
     set (new_calls (Commands_fromContext authFromContext createClientFactory ctx) s)"
  by (simp add: new_calls_def Commands_fromContext_def Commands_new_def await_def call_def
        resolve_def split: prod.splits sum.splits)

section \<open>The claims\<close>

text \<open>
  C1. When the client that the factory returns is not connected, the injector rejects
  with a ToolkitError of code NoConnection, and the wrapped command is not invoked: the
  outcome and the calls made are the same whatever the command is, and no
  \<open>CommandCall\<close> is among them. The client is not connected when its \<open>connected\<close>
  field, read as the factory returns, is false.
\<close>

theorem injector_not_connected:
  assumes "factory (world s) = (Inr c, w1)" and "\<not> connected (fields_of env c w1)"
  shows "createClientInjector env ap factory command args s =
           (Inl (ToolkitError ''Not connected to CodeCatalyst'' ''NoConnection''),
            \<lparr>world = w1,
             trace = trace s @ [ClientFactoryCall, TelemetryRecord (AccountStatus_NotApplicable env)]\<rparr>)"
  using assms by (rule injector_disconnected)

theorem injector_not_connected_witness:
  "createClientInjector quiet_env () (serves nobody) (deleteDevEnv quiet_env) devenv1 start =
     (Inl (ToolkitError ''Not connected to CodeCatalyst'' ''NoConnection''),
      \<lparr>world = 1, trace = [ClientFactoryCall, TelemetryRecord (ustr ''n/a'')]\<rparr>)"
  using injector_not_connected [of "serves nobody" start nobody 1 quiet_env "()"
          "deleteDevEnv quiet_env" devenv1]
  by (simp add: serves_def nobody_def start_def quiet_env_def)

text \<open>
  C2, as the code has it. The claim speaks of every invocation, and fails for one whose
  factory rejects: the factory is awaited before the \<open>try\<close>, so the injector rejects
  with the factory's error and records nothing. For an invocation whose factory returns
  a client, the injector records the user identifier exactly once, as its last call,
  after the command has settled or the connectivity check has failed; the outcome \<open>r\<close>
  of the command, fulfilled or rejected, is kept. The record is \<open>codecatalyst;\<close>
  followed by the identity id when the client is connected as the record is made, that
  is, after the command, and \<open>AccountStatus.NotApplicable\<close> otherwise.
\<close>

theorem injector_telemetry:
  "(factory (world s) = (Inl e, w1) \<longrightarrow>
      createClientInjector env ap factory command args s =
        (Inl e, \<lparr>world = w1, trace = trace s @ [ClientFactoryCall]\<rparr>))
   \<and> (factory (world s) = (Inr c, w1) \<longrightarrow>
      createClientInjector env ap factory command args s =
        (if connected (fields_of env c w1)
         then (case command c args
                     \<lparr>world = w1, trace = trace s @ [ClientFactoryCall, CommandCall c]\<rparr> of
                 (r, s') \<Rightarrow>
                   (r, s'\<lparr>trace := trace s' @
                     [TelemetryRecord
                        (if connected (fields_of env c (world s'))
                         then ustr ''codecatalyst;'' @
                                identity_id (identity (fields_of env c (world s')))
                         else AccountStatus_NotApplicable env)]\<rparr>))
         else (Inl (ToolkitError ''Not connected to CodeCatalyst'' ''NoConnection''),
               \<lparr>world = w1,
                trace = trace s @ [ClientFactoryCall,
                                   TelemetryRecord (AccountStatus_NotApplicable env)]\<rparr>)))"
  using injector_factory_rejects [of factory s e w1 env ap command args]
    injector_connected [of factory s c w1 env ap command args]
    injector_disconnected [of factory s c w1 env ap command args]
  by (cases "connected (fields_of env c w1)") simp_all

theorem injector_telemetry_witness:
  "createClientInjector quiet_env () (serves alice) (deleteDevEnv quiet_env) devenv1 start =
     (Inr (),
      \<lparr>world = 2,
       trace = [ClientFactoryCall, CommandCall alice,
                DeleteDevEnvironment alice (devenv_request devenv1),
                TelemetryRecord (ustr ''codecatalyst;u-1'')]\<rparr>)
   \<and> createClientInjector quiet_env () (serves alice)
       (\<lambda>client (d, ops). stopDevEnv quiet_env client d ops)
       (devenv1, Some \<lparr>showPrompt = Some True\<rparr>) start =
     (Inl (CancellationError ''user''),
      \<lparr>world = 2,
       trace = [ClientFactoryCall, CommandCall alice,
                ShowConfirmationMessage ''aws.codecatalyst.stopDevEnv.confirm''
                  ''Stopping the dev environment will end all processes. Continue?'',
                TelemetryRecord (ustr ''codecatalyst;u-1'')]\<rparr>)
   \<and> createClientInjector quiet_env () (serves flaky) (deleteDevEnv quiet_env) devenv1 start =
     (Inr (),
      \<lparr>world = 2,
       trace = [ClientFactoryCall, CommandCall flaky,
                DeleteDevEnvironment flaky (devenv_request devenv1),
                TelemetryRecord (ustr ''n/a'')]\<rparr>)
   \<and> createClientInjector quiet_env () (serves nobody) (deleteDevEnv quiet_env) devenv1 start =
     (Inl (ToolkitError ''Not connected to CodeCatalyst'' ''NoConnection''),
      \<lparr>world = 1, trace = [ClientFactoryCall, TelemetryRecord (ustr ''n/a'')]\<rparr>)
   \<and> createClientInjector quiet_env () fails (deleteDevEnv quiet_env) devenv1 start =
     (Inl (Error ''no session''), \<lparr>world = 1, trace = [ClientFactoryCall]\<rparr>)"
  using injector_telemetry [where factory = "serves alice" and s = start and e = "Error ''no session''"
          and ?w1.0 = 1 and c = alice and env = quiet_env and ap = "()"
          and command = "deleteDevEnv quiet_env"
          and args = "devenv1"]
        injector_telemetry [where factory = "serves alice" and s = start and e = "Error ''no session''"
          and ?w1.0 = 1 and c = alice and env = quiet_env and ap = "()"
          and command = "\<lambda>client (d, ops). stopDevEnv quiet_env client d ops"
          and args = "(devenv1, Some \<lparr>showPrompt = Some True\<rparr>)"]
        injector_telemetry [where factory = "serves flaky" and s = start and e = "Error ''no session''"
          and ?w1.0 = 1 and c = flaky and env = quiet_env and ap = "()"
          and command = "deleteDevEnv quiet_env"
          and args = "devenv1"]
        injector_telemetry [where factory = "serves nobody" and s = start and e = "Error ''no session''"
          and ?w1.0 = 1 and c = nobody and env = quiet_env and ap = "()"
          and command = "deleteDevEnv quiet_env"
          and args = "devenv1"]
        injector_telemetry [where factory = "fails" and s = start and e = "Error ''no session''"
          and ?w1.0 = 1 and c = alice and env = quiet_env and ap = "()"
          and command = "deleteDevEnv quiet_env"
          and args = "devenv1"]
  by (simp add: serves_def fails_def alice_def flaky_def nobody_def start_def quiet_env_def
        deleteDevEnv_def stopDevEnv_def opts_showPrompt_def await_def call_def reject_def ustr_def)

text \<open>
  C2 as it is stated fails at an invocation whose factory rejects: the run ends with the
  factory call as its only call, and the number of records of the user identifier is
  zero, not one.
\<close>

theorem injector_telemetry_counterexample:
  "createClientInjector quiet_env () fails (deleteDevEnv quiet_env) devenv1 start =
     (Inl (Error ''no session''), \<lparr>world = 1, trace = [ClientFactoryCall]\<rparr>)
   \<and> length (filter is_TelemetryRecord
        (trace (snd (createClientInjector quiet_env () fails (deleteDevEnv quiet_env)
                       devenv1 start)))) = 0"
  by (simp add: createClientInjector_def fails_def start_def await_def call_def)

text \<open>
  C3. When the selection of \<open>cloneCodeCatalystRepo\<close> (called without a url) or of
  \<open>openCodeCatalystResource\<close> returns no resource, or the user rejects the confirmation
  of \<open>stopDevEnv\<close> called with \<open>showPrompt\<close>, the operation rejects with a
  CancellationError of agent \<open>user\<close>, and the prompt is the only call it has made: no
  request has gone to the client.
\<close>

theorem cancel_on_decline:
  "(selectCodeCatalystResource_repo env c (world s) = (Inr None, w1) \<longrightarrow>
      cloneCodeCatalystRepo env c None s =
        (Inl (CancellationError ''user''),
         \<lparr>world = w1, trace = trace s @ [SelectCodeCatalystResource c Kind_repo]\<rparr>))
   \<and> (selectCodeCatalystResource env c kind (world s) = (Inr None, w2) \<longrightarrow>
      openCodeCatalystResource env c kind s =
        (Inl (CancellationError ''user''),
         \<lparr>world = w2, trace = trace s @ [SelectCodeCatalystResource c kind]\<rparr>))
   \<and> (showConfirmationMessage env ''aws.codecatalyst.stopDevEnv.confirm''
         ''Stopping the dev environment will end all processes. Continue?'' (world s)
           = (Inr False, w3) \<longrightarrow>
      stopDevEnv env c d (Some \<lparr>showPrompt = Some True\<rparr>) s =
        (Inl (CancellationError ''user''),
         \<lparr>world = w3,
          trace = trace s @ [ShowConfirmationMessage ''aws.codecatalyst.stopDevEnv.confirm''
            ''Stopping the dev environment will end all processes. Continue?'']\<rparr>))"
  by (simp add: cloneCodeCatalystRepo_def openCodeCatalystResource_def stopDevEnv_def
        opts_showPrompt_def await_def call_def reject_def)

theorem cancel_on_decline_witness:
  "cloneCodeCatalystRepo quiet_env alice None start =
     (Inl (CancellationError ''user''),
      \<lparr>world = 1, trace = [SelectCodeCatalystResource alice Kind_repo]\<rparr>)
   \<and> openCodeCatalystResource quiet_env alice Kind_project start =
     (Inl (CancellationError ''user''),
      \<lparr>world = 1, trace = [SelectCodeCatalystResource alice Kind_project]\<rparr>)
   \<and> stopDevEnv quiet_env alice devenv1 (Some \<lparr>showPrompt = Some True\<rparr>) start =
     (Inl (CancellationError ''user''),
      \<lparr>world = 1,
       trace = [ShowConfirmationMessage ''aws.codecatalyst.stopDevEnv.confirm''
                  ''Stopping the dev environment will end all processes. Continue?'']\<rparr>)"
  using cancel_on_decline [of quiet_env alice start 1 Kind_project 1 1 devenv1]
  by (simp add: quiet_env_def start_def)

text \<open>
  C4. \<open>deleteDevEnv\<close>, \<open>stopDevEnv\<close> (when no prompt is requested) and \<open>updateDevEnv\<close>
  each make one call, to the client operation of their name. The request of the first
  two is the object of the three properties \<open>id\<close>, \<open>projectName\<close>, \<open>spaceName\<close> taken
  from the dev environment; the request of \<open>updateDevEnv\<close> has the properties of the
  settings, overridden at these three keys. Each returns what the client returns, so
  \<open>updateDevEnv\<close> returns the value of \<open>client.updateDevEnvironment\<close>.
\<close>

theorem devenv_pass_through:
  "devenv_request d =
     [(''id'', JString (devenv_id d)), (''projectName'', JString (name (project d))),
      (''spaceName'', JString (name (org d)))]
   \<and> map_of (update_request d settings) =
       (map_of settings)(''id'' \<mapsto> JString (devenv_id d),
          ''projectName'' \<mapsto> JString (name (project d)),
          ''spaceName'' \<mapsto> JString (name (org d)))
   \<and> deleteDevEnv env c d s =
       (case deleteDevEnvironment env c (devenv_request d) (world s) of
          (r, w') \<Rightarrow> (r, \<lparr>world = w', trace = trace s @ [DeleteDevEnvironment c (devenv_request d)]\<rparr>))
   \<and> (\<not> opts_showPrompt opts \<longrightarrow>
       stopDevEnv env c d opts s =
         (case stopDevEnvironment env c (devenv_request d) (world s) of
            (r, w') \<Rightarrow> (r, \<lparr>world = w', trace = trace s @ [StopDevEnvironment c (devenv_request d)]\<rparr>)))
   \<and> updateDevEnv env c d settings s =
       (case updateDevEnvironment env c (update_request d settings) (world s) of
          (r, w') \<Rightarrow> (r, \<lparr>world = w',
             trace = trace s @ [UpdateDevEnvironment c (update_request d settings)]\<rparr>))"
  using update_request_lookup [of d settings] deleteDevEnv_run [of env c d s]
    stopDevEnv_no_prompt [of opts env c d s] updateDevEnv_run [of env c d settings s]
  by (simp add: devenv_request_def)

theorem devenv_pass_through_witness:
  "deleteDevEnv quiet_env alice devenv1 start =
     (Inr (), \<lparr>world = 1, trace = [DeleteDevEnvironment alice
        [(''id'', JString (ustr ''de-1'')), (''projectName'', JString (ustr ''web'')),
         (''spaceName'', JString (ustr ''acme''))]]\<rparr>)
   \<and> stopDevEnv quiet_env alice devenv1 None start =
     (Inr (), \<lparr>world = 1, trace = [StopDevEnvironment alice
        [(''id'', JString (ustr ''de-1'')), (''projectName'', JString (ustr ''web'')),
         (''spaceName'', JString (ustr ''acme''))]]\<rparr>)
   \<and> updateDevEnv quiet_env alice devenv1
        [(''alias'', JString (ustr ''dev'')), (''id'', JString (ustr ''other''))] start =
     (Inr (JObject [(''alias'', JString (ustr ''dev'')), (''id'', JString (ustr ''de-1'')),
                    (''projectName'', JString (ustr ''web'')),
                    (''spaceName'', JString (ustr ''acme''))]),
      \<lparr>world = 1, trace = [UpdateDevEnvironment alice
        [(''alias'', JString (ustr ''dev'')), (''id'', JString (ustr ''de-1'')),
         (''projectName'', JString (ustr ''web'')), (''spaceName'', JString (ustr ''acme''))]]\<rparr>)"
  using devenv_pass_through [of devenv1
          "[(''alias'', JString (ustr ''dev'')), (''id'', JString (ustr ''other''))]"
          quiet_env alice start None]
  by (simp add: quiet_env_def start_def devenv1_def devenv_request_def update_request_def
        opts_showPrompt_def)

text \<open>
  C5. An invocation of the injector calls the client factory once, and first: the
  factory is applied to the world as the invocation finds it, and nothing else has been
  called. What follows works on what that one call returned. When it rejects, the
  invocation ends there. Otherwise the connectivity is read of the client it returned,
  in the world it left, and the command is called with that client, from there.
  Outside an invocation the file calls no factory: not in constructing the commands
  (the constructor, \<open>fromContext\<close>), not in a command that is handed its client, not in
  \<open>listCommands\<close> or \<open>openDevfile\<close>; and a call of a bound command is an invocation.
  \<open>createClientInjector\<close> has no host to act on before it is given a command.
\<close>

theorem factory_once:
  "createClientInjector env ap factory command args s =
     (case factory (world s) of
        (Inl e, w1) \<Rightarrow> (Inl e, \<lparr>world = w1, trace = trace s @ [ClientFactoryCall]\<rparr>)
      | (Inr c, w1) \<Rightarrow>
          if connected (fields_of env c w1)
          then (case command c args
                      \<lparr>world = w1, trace = trace s @ [ClientFactoryCall, CommandCall c]\<rparr> of
                  (r, s') \<Rightarrow>
                    (r, s'\<lparr>trace := trace s' @
                      [TelemetryRecord
                         (if connected (fields_of env c (world s'))
                          then ustr ''codecatalyst;'' @
                                 identity_id (identity (fields_of env c (world s')))
                          else AccountStatus_NotApplicable env)]\<rparr>))
          else (Inl (ToolkitError ''Not connected to CodeCatalyst'' ''NoConnection''),
                \<lparr>world = w1,
                 trace = trace s @ [ClientFactoryCall,
                                    TelemetryRecord (AccountStatus_NotApplicable env)]\<rparr>))
   \<and> bindClient env this command args s =
       createClientInjector env (authProvider this) (clientFactory this) command args s
   \<and> ClientFactoryCall \<notin> set (new_calls (Commands_new createClientFactory auth given) s)
   \<and> ClientFactoryCall \<notin>
       set (new_calls (Commands_fromContext authFromContext createClientFactory ctx) s)
   \<and> ClientFactoryCall \<notin> set (new_calls (listCommands env) s)
   \<and> ClientFactoryCall \<notin> set (new_calls (Commands_openDevfile env this uri) s)
   \<and> ClientFactoryCall \<notin> set (new_calls (cloneCodeCatalystRepo env cl url) s)
   \<and> ClientFactoryCall \<notin> set (new_calls (openCodeCatalystResource env cl kind) s)
   \<and> ClientFactoryCall \<notin> set (new_calls (stopDevEnv env cl d opts) s)
   \<and> ClientFactoryCall \<notin> set (new_calls (deleteDevEnv env cl d) s)
   \<and> ClientFactoryCall \<notin> set (new_calls (updateDevEnv env cl d settings) s)"
proof -
  have run: "createClientInjector env ap factory command args s =
     (case factory (world s) of
        (Inl e, w1) \<Rightarrow> (Inl e, \<lparr>world = w1, trace = trace s @ [ClientFactoryCall]\<rparr>)
      | (Inr c, w1) \<Rightarrow>
          if connected (fields_of env c w1)
          then (case command c args
                      \<lparr>world = w1, trace = trace s @ [ClientFactoryCall, CommandCall c]\<rparr> of
                  (r, s') \<Rightarrow>
                    (r, s'\<lparr>trace := trace s' @
                      [TelemetryRecord
                         (if connected (fields_of env c (world s'))
                          then ustr ''codecatalyst;'' @
                                 identity_id (identity (fields_of env c (world s')))
                          else AccountStatus_NotApplicable env)]\<rparr>))
          else (Inl (ToolkitError ''Not connected to CodeCatalyst'' ''NoConnection''),
                \<lparr>world = w1,
                 trace = trace s @ [ClientFactoryCall,
                                    TelemetryRecord (AccountStatus_NotApplicable env)]\<rparr>))"
  proof (cases "factory (world s)")
    case (Pair r w1)
    show ?thesis
    proof (cases r)
      case (Inl e)
      with Pair injector_factory_rejects [of factory s e w1 env ap command args]
      show ?thesis by simp
    next
      case (Inr c)
      show ?thesis
      proof (cases "connected (fields_of env c w1)")
        case True
        with Pair Inr injector_connected [of factory s c w1 env ap command args]
        show ?thesis by simp
      next
        case False
        with Pair Inr injector_disconnected [of factory s c w1 env ap command args]
        show ?thesis by simp
      qed
    qed
  qed
  have bound: "bindClient env this command args s =
       createClientInjector env (authProvider this) (clientFactory this) command args s"
    by (simp add: bindClient_def withClient_def)
  from run bound show ?thesis
    using no_factory_new [of createClientFactory auth given s]
      no_factory_fromContext [of authFromContext createClientFactory ctx s]
      no_factory_listCommands [of env s] no_factory_openDevfile [of env this uri s]
      no_factory_clone [of env cl url s] no_factory_openResource [of env cl kind s]
      no_factory_stop [of env cl d opts s] no_factory_delete [of env cl d s]
      no_factory_update [of env cl d settings s]
    by blast
qed

theorem factory_once_witness:
  "createClientInjector quiet_env () (serves alice) (deleteDevEnv quiet_env) devenv1 start =
     (Inr (),
      \<lparr>world = 2,
       trace = [ClientFactoryCall, CommandCall alice,
                DeleteDevEnvironment alice (devenv_request devenv1),
                TelemetryRecord (ustr ''codecatalyst;u-1'')]\<rparr>)
   \<and> createClientInjector quiet_env () fails (deleteDevEnv quiet_env) devenv1 start =
     (Inl (Error ''no session''), \<lparr>world = 1, trace = [ClientFactoryCall]\<rparr>)
   \<and> new_calls (Commands_fromContext (\<lambda>ctx w. (Inr (), Suc w))
                   (\<lambda>auth w. (Inr (serves alice), Suc w)) ()) start =
       [AuthFromContextCall, CreateClientFactoryCall]
   \<and> new_calls (deleteDevEnv quiet_env alice devenv1) start =
       [DeleteDevEnvironment alice (devenv_request devenv1)]"
  using factory_once [where env = quiet_env and ap = "()" and factory = "serves alice"
          and command = "deleteDevEnv quiet_env" and args = devenv1 and s = start
          and createClientFactory = "\<lambda>auth w. (Inr (serves alice), Suc w)"
          and authFromContext = "\<lambda>ctx w. (Inr (), Suc w)" and ctx = "()"
          and cl = alice and d = devenv1]
        factory_once [where env = quiet_env and ap = "()" and factory = "fails"
          and command = "deleteDevEnv quiet_env" and args = devenv1 and s = start
          and createClientFactory = "\<lambda>auth w. (Inr (serves alice), Suc w)"
          and authFromContext = "\<lambda>ctx w. (Inr (), Suc w)" and ctx = "()"
          and cl = alice and d = devenv1]
  by (simp add: serves_def fails_def alice_def start_def quiet_env_def deleteDevEnv_def
        new_calls_def Commands_fromContext_def Commands_new_def createClientInjector_def
        await_def call_def resolve_def reject_def reading_def try_finally_def emit_def ustr_def)
text \<open>
  C6. \<open>stopDevEnv\<close> shows the confirmation exactly when it is given an \<open>opts\<close> whose
  \<open>showPrompt\<close> is true. Otherwise (no \<open>opts\<close>, no \<open>showPrompt\<close>, or \<open>showPrompt\<close>
  false) its one call is the stop request to the client.
\<close>

theorem stop_prompt_iff:
  "((\<exists>k m. ShowConfirmationMessage k m \<in>
        set (drop (length (trace s)) (trace (snd (stopDevEnv env c d opts s)))))
     = (\<exists>ops. opts = Some ops \<and> showPrompt ops = Some True))
   \<and> (\<not> (\<exists>ops. opts = Some ops \<and> showPrompt ops = Some True) \<longrightarrow>
       stopDevEnv env c d opts s =
       (case stopDevEnvironment env c (devenv_request d) (world s) of
          (r, w') \<Rightarrow> (r, \<lparr>world = w', trace = trace s @ [StopDevEnvironment c (devenv_request d)]\<rparr>)))"
proof (cases "opts_showPrompt opts")
  case True
  from stopDevEnv_prompt [OF True, of env c d s] obtain rest where
    "trace (snd (stopDevEnv env c d opts s)) =
       trace s @ ShowConfirmationMessage ''aws.codecatalyst.stopDevEnv.confirm''
        ''Stopping the dev environment will end all processes. Continue?'' # rest" by blast
  then have "\<exists>k m. ShowConfirmationMessage k m \<in>
        set (drop (length (trace s)) (trace (snd (stopDevEnv env c d opts s))))"
    by auto
  with True show ?thesis by (simp add: opts_showPrompt_iff)
next
  case False
  note run = stopDevEnv_no_prompt [OF False, of env c d s]
  have "\<not> (\<exists>k m. ShowConfirmationMessage k m \<in>
        set (drop (length (trace s)) (trace (snd (stopDevEnv env c d opts s)))))"
    by (simp add: run split: prod.splits)
  with False run show ?thesis by (simp add: opts_showPrompt_iff)
qed

theorem stop_prompt_iff_witness:
  "stopDevEnv quiet_env alice devenv1 (Some \<lparr>showPrompt = Some False\<rparr>) start =
     (Inr (), \<lparr>world = 1, trace = [StopDevEnvironment alice (devenv_request devenv1)]\<rparr>)
   \<and> (\<exists>k m. ShowConfirmationMessage k m \<in>
        set (drop (length (trace start))
          (trace (snd (stopDevEnv quiet_env alice devenv1 (Some \<lparr>showPrompt = Some True\<rparr>) start)))))"
  using stop_prompt_iff [of start quiet_env alice devenv1 "Some \<lparr>showPrompt = Some False\<rparr>"]
        stop_prompt_iff [of start quiet_env alice devenv1 "Some \<lparr>showPrompt = Some True\<rparr>"]
  by (simp add: quiet_env_def start_def)
text \<open>
  C8. \<open>cloneCodeCatalystRepo\<close> with a url splits the path, less its first code unit, at
  the slashes. The first piece is not looked at. When the second, third or fourth piece
  is missing or empty, it rejects with the Error \<open>Invalid CodeCatalyst URL\<close> and has
  made no call. Otherwise the three pieces are the space, the project and the repository
  of the request sent to \<open>getRepoCloneUrl\<close>, after the access token was fetched.
\<close>

theorem clone_url:
  "cloneCodeCatalystRepo env c (Some u) s =
    (let parts = js_split slash (js_slice1 (path u));
         request = [(''spaceName'', JString (parts ! 1)), (''projectName'', JString (parts ! 2)),
                       (''sourceRepositoryName'', JString (parts ! 3))];
         user = identity_name (identity (fields_of env c (world s)))
     in if length parts < 4 \<or> parts ! 1 = [] \<or> parts ! 2 = [] \<or> parts ! 3 = []
        then (Inl (Error ''Invalid CodeCatalyst URL: unable to parse repository''), s)
        else
          (case getPat env c (world s) of
             (Inl e, w1) \<Rightarrow> (Inl e, \<lparr>world = w1, trace = trace s @ [GetPat c]\<rparr>)
           | (Inr pat, w1) \<Rightarrow>
               (case getRepoCloneUrl env c request user pat w1 of
                  (Inl e, w2) \<Rightarrow>
                    (Inl e, \<lparr>world = w2,
                             trace = trace s @ [GetPat c, GetRepoCloneUrl c request user pat]\<rparr>)
                | (Inr uri, w2) \<Rightarrow>
                    (case executeCommand env ''git.clone'' [uri] w2 of
                       (r, w3) \<Rightarrow>
                         (r, \<lparr>world = w3,
                              trace = trace s @ [GetPat c, GetRepoCloneUrl c request user pat,
                                                 ExecuteCommand ''git.clone'' [uri]]\<rparr>)))))"
proof (cases "length (js_split slash (js_slice1 (path u))) < 4
           \<or> js_split slash (js_slice1 (path u)) ! 1 = []
           \<or> js_split slash (js_slice1 (path u)) ! 2 = []
           \<or> js_split slash (js_slice1 (path u)) ! 3 = []")
  case True
  let ?parts = "js_split slash (js_slice1 (path u))"
  from True have "falsy (element ?parts 1) \<or> falsy (element ?parts 2) \<or> falsy (element ?parts 3)"
    unfolding falsy_element by linarith
  then have "cloneCodeCatalystRepo env c (Some u) s =
           (Inl (Error ''Invalid CodeCatalyst URL: unable to parse repository''), s)"
    by (simp add: cloneCodeCatalystRepo_def Let_def await_def reject_def)
  with True show ?thesis by (simp add: Let_def)
next
  case False
  let ?parts = "js_split slash (js_slice1 (path u))"
  from False have f: "\<not> falsy (element ?parts 1)" "\<not> falsy (element ?parts 2)"
      "\<not> falsy (element ?parts 3)"
    unfolding falsy_element by linarith+
  from False have e: "element ?parts 1 = Some (?parts ! 1)" "element ?parts 2 = Some (?parts ! 2)"
     "element ?parts 3 = Some (?parts ! 3)"
    by (simp_all add: element_def)
  show ?thesis
    using False f e
    by (simp add: cloneCodeCatalystRepo_def Let_def await_def resolve_def call_def reading_def
          split: prod.splits sum.splits)
qed

theorem clone_url_witness:
  "cloneCodeCatalystRepo quiet_env alice
       (Some \<lparr>scheme = ustr ''vscode'', authority = ustr ''aws'',
              path = ustr ''/clone/acme/web/api'', query = [], fragment = []\<rparr>) start =
     (Inr (),
      \<lparr>world = 3,
       trace = [GetPat alice,
                GetRepoCloneUrl alice
                  [(''spaceName'', JString (ustr ''acme'')), (''projectName'', JString (ustr ''web'')),
                   (''sourceRepositoryName'', JString (ustr ''api''))]
                  (ustr ''alice'') (ustr ''pat''),
                ExecuteCommand ''git.clone'' [ustr ''https://clone'']]\<rparr>)
   \<and> cloneCodeCatalystRepo quiet_env alice
       (Some \<lparr>scheme = ustr ''vscode'', authority = ustr ''aws'',
              path = ustr ''/clone/acme//api'', query = [], fragment = []\<rparr>) start =
     (Inl (Error ''Invalid CodeCatalyst URL: unable to parse repository''), start)
   \<and> cloneCodeCatalystRepo quiet_env alice
       (Some \<lparr>scheme = ustr ''vscode'', authority = ustr ''aws'',
              path = ustr ''/clone/acme/web'', query = [], fragment = []\<rparr>) start =
     (Inl (Error ''Invalid CodeCatalyst URL: unable to parse repository''), start)"
  using clone_url [of quiet_env alice
          "\<lparr>scheme = ustr ''vscode'', authority = ustr ''aws'',
            path = ustr ''/clone/acme/web/api'', query = [], fragment = []\<rparr>" start]
        clone_url [of quiet_env alice
          "\<lparr>scheme = ustr ''vscode'', authority = ustr ''aws'',
            path = ustr ''/clone/acme//api'', query = [], fragment = []\<rparr>" start]
        clone_url [of quiet_env alice
          "\<lparr>scheme = ustr ''vscode'', authority = ustr ''aws'',
            path = ustr ''/clone/acme/web'', query = [], fragment = []\<rparr>" start]
  by (simp add: quiet_env_def alice_def start_def js_split_def js_slice1_def slash_def ustr_def)

text \<open>
  C9. \<open>openDevEnv\<close> of the class, when the editor's remote name is \<open>ssh-remote\<close>,
  rejects with a ToolkitError of code ConnectedToRemote and has made no call: no
  selection, no client factory, no telemetry.
\<close>

theorem open_from_remote:
  assumes "remoteName env = Some (ustr ''ssh-remote'')"
  shows "Commands_openDevEnv env this ident targetPath s =
           (Inl (ToolkitError
              ''Cannot connect from a remote context. Try again from a local VS Code instance.''
              ''ConnectedToRemote''), s)"
  using assms by (simp add: Commands_openDevEnv_def reject_def)

theorem open_from_remote_witness:
  "Commands_openDevEnv (quiet_env\<lparr>remoteName := Some (ustr ''ssh-remote'')\<rparr>)
       \<lparr>authProvider = (), clientFactory = serves alice\<rparr> None None start =
     (Inl (ToolkitError
        ''Cannot connect from a remote context. Try again from a local VS Code instance.''
        ''ConnectedToRemote''), start)"
  using open_from_remote [of "quiet_env\<lparr>remoteName := Some (ustr ''ssh-remote'')\<rparr>"
          "\<lparr>authProvider = (), clientFactory = serves alice\<rparr>" None None start]
  by simp

text \<open>
  C10. \<open>stopDevEnv\<close> of the class starts the editor command
  \<open>workbench.action.remote.close\<close> when the injected stop operation is fulfilled, as the
  one call after it; when the stop operation rejects, the outcome and the calls are
  those of the stop operation. The stop operation itself never makes that call.
\<close>

theorem close_after_stop:
  "Commands_stopDevEnv env this d opts s =
     (case withClient env this (\<lambda>client (d, ops). stopDevEnv env client d ops) (d, opts) s of
        (Inl e, s1) \<Rightarrow> (Inl e, s1)
      | (Inr _, s1) \<Rightarrow>
          (Inr (), \<lparr>world = snd (executeCommand env ''workbench.action.remote.close'' [] (world s1)),
                    trace = trace s1 @ [ExecuteCommand ''workbench.action.remote.close'' []]\<rparr>))
   \<and> ExecuteCommand ''workbench.action.remote.close'' [] \<notin>
       set (drop (length (trace s))
              (trace (snd (withClient env this
                             (\<lambda>client (d, ops). stopDevEnv env client d ops) (d, opts) s))))"
proof -
  let ?close = "ExecuteCommand ''workbench.action.remote.close'' []"
  let ?stop = "\<lambda>client (d, ops). stopDevEnv env client d ops"
  let ?inj = "createClientInjector env (authProvider this) (clientFactory this) ?stop (d, opts)"
  have "?close \<notin> set (drop (length (trace s)) (trace (snd (?inj s))))"
  proof (cases "clientFactory this (world s)")
    case (Pair r w1)
    show ?thesis
    proof (cases r)
      case (Inl e)
      with Pair injector_factory_rejects [of "clientFactory this" s e w1 env "authProvider this"
          ?stop "(d, opts)"]
      show ?thesis by simp
    next
      case (Inr c)
      show ?thesis
      proof (cases "connected (fields_of env c w1)")
        case False
        with Pair Inr injector_disconnected [of "clientFactory this" s c w1 env "authProvider this"
            ?stop "(d, opts)"]
        show ?thesis by simp
      next
        case True
        let ?s2 = "\<lparr>world = w1, trace = trace s @ [ClientFactoryCall, CommandCall c]\<rparr>"
        from stop_extends [of env c d opts ?s2 "''workbench.action.remote.close''" "[]"]
        obtain evs where
          evs: "trace (snd (stopDevEnv env c d opts ?s2)) = trace ?s2 @ evs" "?close \<notin> set evs"
          by blast
        from Pair Inr True injector_connected [of "clientFactory this" s c w1 env
            "authProvider this" ?stop "(d, opts)"]
        have "\<exists>u. trace (snd (?inj s)) =
           trace (snd (stopDevEnv env c d opts ?s2)) @ [TelemetryRecord u]"
          by (simp split: prod.splits)
        with evs show ?thesis by auto
      qed
    qed
  qed
  then show ?thesis
    by (simp add: Commands_stopDevEnv_def withClient_def await_def detached_def call_def
          split: prod.splits sum.splits)
qed

theorem close_after_stop_witness:
  "Commands_stopDevEnv quiet_env \<lparr>authProvider = (), clientFactory = serves alice\<rparr>
       devenv1 None start =
     (Inr (),
      \<lparr>world = 3,
       trace = [ClientFactoryCall, CommandCall alice,
                StopDevEnvironment alice (devenv_request devenv1),
                TelemetryRecord (ustr ''codecatalyst;u-1''),
                ExecuteCommand ''workbench.action.remote.close'' []]\<rparr>)
   \<and> Commands_stopDevEnv quiet_env \<lparr>authProvider = (), clientFactory = serves alice\<rparr>
       devenv1 (Some \<lparr>showPrompt = Some True\<rparr>) start =
     (Inl (CancellationError ''user''),
      \<lparr>world = 2,
       trace = [ClientFactoryCall, CommandCall alice,
                ShowConfirmationMessage ''aws.codecatalyst.stopDevEnv.confirm''
                  ''Stopping the dev environment will end all processes. Continue?'',
                TelemetryRecord (ustr ''codecatalyst;u-1'')]\<rparr>)
   \<and> Commands_stopDevEnv quiet_env \<lparr>authProvider = (), clientFactory = serves nobody\<rparr>
       devenv1 None start =
     (Inl (ToolkitError ''Not connected to CodeCatalyst'' ''NoConnection''),
      \<lparr>world = 1, trace = [ClientFactoryCall, TelemetryRecord (ustr ''n/a'')]\<rparr>)"
  using close_after_stop [of quiet_env "\<lparr>authProvider = (), clientFactory = serves alice\<rparr>"
          devenv1 None start]
        close_after_stop [of quiet_env "\<lparr>authProvider = (), clientFactory = serves alice\<rparr>"
          devenv1 "Some \<lparr>showPrompt = Some True\<rparr>" start]
        close_after_stop [of quiet_env "\<lparr>authProvider = (), clientFactory = serves nobody\<rparr>"
          devenv1 None start]
  by (simp add: quiet_env_def serves_def alice_def nobody_def start_def withClient_def createClientInjector_def reading_def
        stopDevEnv_def opts_showPrompt_def await_def call_def reject_def resolve_def emit_def
        try_finally_def ustr_def)

end
